theory Spec2Isabelle
  imports Main "HOL-Library.Word"
begin

section \<open>The device list of jaxlib (\<^verbatim>\<open>jaxlib/py_device_list.cc\<close>)\<close>

text \<open>
  A shallow embedding of \<^verbatim>\<open>jax::PyDeviceList\<close>. Every method of the class becomes a
  function that takes the object (a record of its members) and returns the outcome
  together with the object as the method leaves it; the two static methods that compare
  or allocate objects (\<^verbatim>\<open>Equal\<close>, \<^verbatim>\<open>AddressableDeviceList\<close>) work on a store of
  objects. A C++ exception, a failed \<^verbatim>\<open>CHECK\<close> and a null dereference are values
  of the type \<open>exn\<close>. Members are written with the suffix \<open>_m\<close> where the source has a
  trailing underscore (\<^verbatim>\<open>hash_\<close> is \<open>hash_m\<close>).
\<close>

subsection \<open>Statuses and exceptions\<close>

datatype Status = InvalidArgument string | StatusError string

fun ToString :: "Status \<Rightarrow> string" where
  "ToString (InvalidArgument m) = ''INVALID_ARGUMENT: '' @ m"
| "ToString (StatusError m) = m"

datatype exn =
    value_error string
  | index_error
  | python_error string
  | cast_error
  | XlaRuntimeError Status
  | check_failure string
  | null_dereference

subsection \<open>Clients, devices and Python objects\<close>

text \<open>
  A client and a runtime device are identified by their address; the other fields are
  what the accessors of the object return (\<^verbatim>\<open>PyClient::process_index()\<close>,
  \<^verbatim>\<open>Device::ProcessIndex()\<close>, \<^verbatim>\<open>Kind()\<close>, \<^verbatim>\<open>DefaultMemory()\<close> with the kind of the
  memory it returns, \<^verbatim>\<open>Memories()\<close> with their kinds).
\<close>

record PyClient =
  client_ptr :: nat
  process_index :: int

record ifrt_device =
  device_ptr :: nat
  ProcessIndex :: int
  Kind :: string
  DefaultMemory :: "Status + string"
  Memories :: "string list"

datatype py_value = PyNone | PyStr string | PyMemorySpace string | PyOther nat

text \<open>
  A duck-typed device is an arbitrary Python object. The record holds its identity and
  the outcome of each attribute access the source makes on it:
  \<^verbatim>\<open>nb::cast<int>(device.attr("process_index"))\<close>,
  \<^verbatim>\<open>nb::cast<int>(device.attr("client").attr("process_index")())\<close>,
  \<^verbatim>\<open>device.attr("default_memory")().attr("kind")\<close> and
  \<^verbatim>\<open>nb::tuple(device.attr("addressable_memories")())\<close>; the last two can only raise
  \<^verbatim>\<open>nb::python_error\<close>, whose \<^verbatim>\<open>what()\<close> is the string on the left.
\<close>

record duck_device =
  duck_id :: nat
  duck_process_index :: "exn + int"
  duck_client_process_index :: "exn + int"
  duck_default_memory_kind :: "string + py_value"
  duck_addressable_memories :: "string + py_value list"

text \<open>
  An element of a device tuple is a \<^verbatim>\<open>jax::PyDevice\<close> (its \<^verbatim>\<open>client()\<close> and its
  \<^verbatim>\<open>device()\<close>) or a duck-typed device. Two values of this type are the same Python
  object exactly when they are equal.
\<close>

datatype py_obj = PyDevice PyClient ifrt_device | DuckDevice duck_device

fun isinstance_PyDevice :: "py_obj \<Rightarrow> bool" where
  "isinstance_PyDevice (PyDevice c d) = True"
| "isinstance_PyDevice (DuckDevice k) = False"

text \<open>
  Modelled from the spec: \<^verbatim>\<open>PyClient::GetPyDevice\<close> is declared in
  \<^verbatim>\<open>py_client.h\<close> and defined outside the sources at hand. The client registry holds
  one handle for each device, so that repeated queries return the same handle: the
  handle of a device is determined by the client and the device.
\<close>

definition GetPyDevice :: "PyClient \<Rightarrow> ifrt_device \<Rightarrow> py_obj" where
  "GetPyDevice c d = PyDevice c d"

text \<open>
  Modelled from the spec: the Python attributes of \<^verbatim>\<open>jax::PyDevice\<close> are bound outside
  the sources at hand; \<^verbatim>\<open>py_device.h\<close> declares the methods behind them
  (\<^verbatim>\<open>process_index()\<close>, \<^verbatim>\<open>client()\<close>, \<^verbatim>\<open>DefaultMemory()\<close>,
  \<^verbatim>\<open>AddressableMemories()\<close>).
\<close>

fun py_process_index :: "py_obj \<Rightarrow> exn + int" where
  "py_process_index (PyDevice c d) = Inr (ProcessIndex d)"
| "py_process_index (DuckDevice k) = duck_process_index k"

fun py_client_process_index :: "py_obj \<Rightarrow> exn + int" where
  "py_client_process_index (PyDevice c d) = Inr (process_index c)"
| "py_client_process_index (DuckDevice k) = duck_client_process_index k"

fun py_default_memory_kind :: "py_obj \<Rightarrow> string + py_value" where
  "py_default_memory_kind (PyDevice c d) =
     (case DefaultMemory d of Inl st \<Rightarrow> Inl (ToString st) | Inr k \<Rightarrow> Inr (PyStr k))"
| "py_default_memory_kind (DuckDevice k) = duck_default_memory_kind k"

fun py_addressable_memories :: "py_obj \<Rightarrow> string + py_value list" where
  "py_addressable_memories (PyDevice c d) = Inr (map PyMemorySpace (Memories d))"
| "py_addressable_memories (DuckDevice k) = duck_addressable_memories k"

subsection \<open>The libraries the code calls\<close>

text \<open>
  Four functions of other libraries decide what the code returns and are parameters of
  the model: \<^verbatim>\<open>absl::HashOf\<close> on a runtime device list, \<^verbatim>\<open>nb::hash\<close> on a Python
  tuple (which raises when an element is unhashable), the \<^verbatim>\<open>__eq__\<close> of two distinct
  Python objects, and \<^verbatim>\<open>MakeDeviceList\<close> of the runtime client.
\<close>

record runtime =
  absl_HashOf :: "ifrt_device list \<Rightarrow> 64 word"
  nb_hash :: "py_obj list \<Rightarrow> exn + 64 word"
  py_eq :: "py_obj \<Rightarrow> py_obj \<Rightarrow> exn + bool"
  MakeDeviceList :: "PyClient \<Rightarrow> ifrt_device list \<Rightarrow> Status + ifrt_device list"

text \<open>
  \<^verbatim>\<open>nb::tuple::equal\<close> is Python's \<^verbatim>\<open>==\<close> on tuples: element by element, an
  element being equal to itself without a call of \<^verbatim>\<open>__eq__\<close>.
\<close>

fun tuple_equal :: "runtime \<Rightarrow> py_obj list \<Rightarrow> py_obj list \<Rightarrow> exn + bool" where
  "tuple_equal rt [] [] = Inr True"
| "tuple_equal rt (x # xs) (y # ys) =
     (if x = y then tuple_equal rt xs ys
      else (case py_eq rt x y of
              Inl e \<Rightarrow> Inl e
            | Inr b \<Rightarrow> (if b then tuple_equal rt xs ys else Inr False)))"
| "tuple_equal rt [] (y # ys) = Inr False"
| "tuple_equal rt (x # xs) [] = Inr False"

subsection \<open>The object\<close>

text \<open>
  \<^verbatim>\<open>device_list_\<close> is a \<^verbatim>\<open>std::variant\<close> of a runtime device list (index 0) and a Python
  tuple (index 1).
\<close>

datatype device_list_variant = IfrtDeviceList "ifrt_device list" | PyTuple "py_obj list"

record MemoryKindInfo =
  default_memory_kind :: py_value
  memory_kinds :: "py_value list"

record PyDeviceList =
  py_client_m :: "PyClient option"
  device_list_m :: device_list_variant
  hash_m :: "64 word option"
  is_fully_addressable_m :: "bool option"
  addressable_device_list_m :: "nat option"
  process_indices_m :: "int set option"
  device_kind_m :: "string option"
  memory_kind_info_m :: "(Status + MemoryKindInfo) option"

definition new_PyDeviceList :: "PyClient option \<Rightarrow> device_list_variant \<Rightarrow> PyDeviceList" where
  "new_PyDeviceList c dl =
     \<lparr>py_client_m = c, device_list_m = dl, hash_m = None, is_fully_addressable_m = None,
      addressable_device_list_m = None, process_indices_m = None, device_kind_m = None,
      memory_kind_info_m = None\<rparr>"

text \<open>\<^verbatim>\<open>PyDeviceList(nb_class_ptr<PyClient>, DeviceListRef)\<close>\<close>

definition PyDeviceList_ifrt :: "PyClient option \<Rightarrow> ifrt_device list \<Rightarrow> PyDeviceList" where
  "PyDeviceList_ifrt py_client device_list = new_PyDeviceList py_client (IfrtDeviceList device_list)"

text \<open>
  The loop of \<^verbatim>\<open>PyDeviceList(nb::tuple)\<close>: the client seen so far and the devices
  collected so far; the second component of the result is \<open>None\<close> when the loop leaves
  the constructor early. The client set from the first element stays set then.
\<close>

fun convert_devices ::
  "py_obj list \<Rightarrow> PyClient option \<Rightarrow> ifrt_device list \<Rightarrow> PyClient option \<times> ifrt_device list option"
where
  "convert_devices [] py_client devices = (py_client, Some devices)"
| "convert_devices (DuckDevice k # rest) py_client devices = (py_client, None)"
| "convert_devices (PyDevice c d # rest) None devices =
     convert_devices rest (Some c) (devices @ [d])"
| "convert_devices (PyDevice c d # rest) (Some c0) devices =
     (if c \<noteq> c0 then (Some c0, None) else convert_devices rest (Some c0) (devices @ [d]))"

text \<open>\<^verbatim>\<open>PyDeviceList(nb::tuple)\<close>\<close>

definition PyDeviceList_tuple :: "runtime \<Rightarrow> py_obj list \<Rightarrow> exn + PyDeviceList" where
  "PyDeviceList_tuple rt py_device_assignment =
     (if length py_device_assignment = 0
      then Inr (new_PyDeviceList None (PyTuple py_device_assignment))
      else (case convert_devices py_device_assignment None [] of
              (py_client, None) \<Rightarrow> Inr (new_PyDeviceList py_client (PyTuple py_device_assignment))
            | (None, Some devices) \<Rightarrow> Inl null_dereference
            | (Some c, Some devices) \<Rightarrow>
                (case MakeDeviceList rt c devices of
                   Inl st \<Rightarrow> Inl (XlaRuntimeError st)
                 | Inr dl \<Rightarrow> Inr (new_PyDeviceList (Some c) (IfrtDeviceList dl)))))"

subsection \<open>Hash, length, items\<close>

definition Hash :: "runtime \<Rightarrow> PyDeviceList \<Rightarrow> (exn + 64 word) \<times> PyDeviceList" where
  "Hash rt l =
     (case hash_m l of
        Some h \<Rightarrow> (Inr h, l)
      | None \<Rightarrow>
          (case device_list_m l of
             IfrtDeviceList ds \<Rightarrow>
               (let h = absl_HashOf rt ds in (Inr h, l\<lparr>hash_m := Some h\<rparr>))
           | PyTuple t \<Rightarrow>
               (case nb_hash rt t of
                  Inl e \<Rightarrow> (Inl e, l)
                | Inr h \<Rightarrow> (Inr h, l\<lparr>hash_m := Some h\<rparr>))))"

definition Len :: "PyDeviceList \<Rightarrow> int" where
  "Len l = (case device_list_m l of
              IfrtDeviceList ds \<Rightarrow> int (length ds)
            | PyTuple t \<Rightarrow> int (length t))"

text \<open>
  \<^verbatim>\<open>GetItem(int index)\<close>. The index and \<^verbatim>\<open>size()\<close> are C \<^verbatim>\<open>int\<close>s; for a list of fewer
  than \<open>2^31\<close> devices neither \<^verbatim>\<open>-size()\<close> nor \<^verbatim>\<open>index += size()\<close> (taken only for
  \<open>-size() \<le> index < 0\<close>) leaves the range of \<^verbatim>\<open>int\<close>, so they are integers here. The
  tuple's own \<^verbatim>\<open>__getitem__\<close> is Python's.
\<close>

definition GetItem :: "PyDeviceList \<Rightarrow> int \<Rightarrow> exn + py_obj" where
  "GetItem l index =
     (case device_list_m l of
        IfrtDeviceList ds \<Rightarrow>
          (let size = int (length ds) in
           if index < - size \<or> index \<ge> size then Inl index_error
           else (let index' = (if index < 0 then index + size else index) in
                 case py_client_m l of
                   None \<Rightarrow> Inl null_dereference
                 | Some c \<Rightarrow> Inr (GetPyDevice c (ds ! nat index'))))
      | PyTuple t \<Rightarrow>
          (let size = int (length t); index' = (if index < 0 then index + size else index) in
           if 0 \<le> index' \<and> index' < size then Inr (t ! nat index')
           else Inl (python_error ''tuple index out of range'')))"

definition AsTuple :: "PyDeviceList \<Rightarrow> exn + py_obj list" where
  "AsTuple l =
     (case device_list_m l of
        IfrtDeviceList ds \<Rightarrow>
          (if ds = [] then Inr []
           else (case py_client_m l of
                   None \<Rightarrow> Inl null_dereference
                 | Some c \<Rightarrow> Inr (map (GetPyDevice c) ds)))
      | PyTuple t \<Rightarrow> Inr t)"

definition Dump :: "PyDeviceList \<Rightarrow> exn + py_obj list" where
  "Dump l = AsTuple l"

subsection \<open>Equality\<close>

text \<open>
  The static methods take \<^verbatim>\<open>nb_class_ptr<PyDeviceList>\<close>: an address in a store of
  objects. The store is a list, an address an index into it, and a new object is
  appended. The second argument of \<^verbatim>\<open>Equal\<close> is any Python object.
\<close>

type_synonym store = "PyDeviceList list"

datatype py_handle = DeviceListObject nat | OtherObject py_value

definition Equal :: "runtime \<Rightarrow> store \<Rightarrow> nat \<Rightarrow> py_handle \<Rightarrow> (exn + bool) \<times> store" where
  "Equal rt s self other =
     (case other of
        OtherObject v \<Rightarrow> (Inr False, s)
      | DeviceListObject o' \<Rightarrow>
          if self = o' then (Inr True, s)
          else (case Hash rt (s ! self) of
                  (Inl e, l1) \<Rightarrow> (Inl e, s[self := l1])
                | (Inr h1, l1) \<Rightarrow>
                    (let s1 = s[self := l1] in
                     case Hash rt (s1 ! o') of
                       (Inl e, l2) \<Rightarrow> (Inl e, s1[o' := l2])
                     | (Inr h2, l2) \<Rightarrow>
                         (let s2 = s1[o' := l2] in
                          if h1 \<noteq> h2 then (Inr False, s2)
                          else (case (device_list_m (s2 ! self), device_list_m (s2 ! o')) of
                                  (IfrtDeviceList ds1, IfrtDeviceList ds2) \<Rightarrow> (Inr (ds1 = ds2), s2)
                                | _ \<Rightarrow>
                                    (case AsTuple (s2 ! self) of
                                       Inl e \<Rightarrow> (Inl e, s2)
                                     | Inr t1 \<Rightarrow>
                                         (case AsTuple (s2 ! o') of
                                            Inl e \<Rightarrow> (Inl e, s2)
                                          | Inr t2 \<Rightarrow>
                                              (case tuple_equal rt t1 t2 of
                                                 Inl e \<Rightarrow> (Inl e, s2)
                                               | Inr b \<Rightarrow> (Inr b, s2)))))))))"

definition NotEqual :: "runtime \<Rightarrow> store \<Rightarrow> nat \<Rightarrow> py_handle \<Rightarrow> (exn + bool) \<times> store" where
  "NotEqual rt s self other =
     (case Equal rt s self other of
        (Inl e, s') \<Rightarrow> (Inl e, s')
      | (Inr b, s') \<Rightarrow> (Inr (\<not> b), s'))"

subsection \<open>Process indices and addressability\<close>

text \<open>
  The loops of \<^verbatim>\<open>ProcessIndices\<close> insert into the member as they go, so an exception
  in the tuple's loop leaves the indices inserted before it in the member.
\<close>

fun insert_process_indices :: "ifrt_device list \<Rightarrow> int set \<Rightarrow> int set" where
  "insert_process_indices [] acc = acc"
| "insert_process_indices (device # rest) acc =
     insert_process_indices rest (insert (ProcessIndex device) acc)"

fun insert_py_process_indices :: "py_obj list \<Rightarrow> int set \<Rightarrow> exn option \<times> int set" where
  "insert_py_process_indices [] acc = (None, acc)"
| "insert_py_process_indices (device # rest) acc =
     (case py_process_index device of
        Inl e \<Rightarrow> (Some e, acc)
      | Inr p \<Rightarrow> insert_py_process_indices rest (insert p acc))"

definition ProcessIndices :: "PyDeviceList \<Rightarrow> (exn + int set) \<times> PyDeviceList" where
  "ProcessIndices l =
     (case process_indices_m l of
        Some pis \<Rightarrow> (Inr pis, l)
      | None \<Rightarrow>
          (case device_list_m l of
             IfrtDeviceList ds \<Rightarrow>
               (let pis = insert_process_indices ds {} in
                (Inr pis, l\<lparr>process_indices_m := Some pis\<rparr>))
           | PyTuple t \<Rightarrow>
               (case insert_py_process_indices t {} of
                  (Some e, pis) \<Rightarrow> (Inl e, l\<lparr>process_indices_m := Some pis\<rparr>)
                | (None, pis) \<Rightarrow> (Inr pis, l\<lparr>process_indices_m := Some pis\<rparr>))))"

text \<open>
  \<^verbatim>\<open>IsFullyAddressable\<close>. \<^verbatim>\<open>CHECK\<close> and \<^verbatim>\<open>CHECK_EQ\<close> abort the process when they
  fail. \<^verbatim>\<open>*process_indices_->begin()\<close> is the least element of the set.
\<close>

definition IsFullyAddressable :: "PyDeviceList \<Rightarrow> (exn + bool) \<times> PyDeviceList" where
  "IsFullyAddressable l =
     (case is_fully_addressable_m l of
        Some b \<Rightarrow> (Inr b, l)
      | None \<Rightarrow>
          (case ProcessIndices l of
             (Inl e, l1) \<Rightarrow> (Inl e, l1)
           | (Inr r, l1) \<Rightarrow>
               (case process_indices_m l1 of
                  None \<Rightarrow> (Inl (check_failure ''process_indices_.has_value()''), l1)
                | Some pis \<Rightarrow>
                    if card pis > 1 then (Inr False, l1\<lparr>is_fully_addressable_m := Some False\<rparr>)
                    else if card pis \<noteq> 1
                    then (Inl (check_failure ''process_indices_->size() == 1''), l1)
                    else (case device_list_m l1 of
                            IfrtDeviceList ds \<Rightarrow>
                              (let local_process_index =
                                     (case py_client_m l1 of
                                        Some c \<Rightarrow> process_index c
                                      | None \<Rightarrow> 0);
                                   b = (Min pis = local_process_index)
                               in (Inr b, l1\<lparr>is_fully_addressable_m := Some b\<rparr>))
                          | PyTuple t \<Rightarrow>
                              (case t of
                                 [] \<Rightarrow> (Inl (python_error ''tuple index out of range''), l1)
                               | device # rest \<Rightarrow>
                                   (case py_client_process_index device of
                                      Inl e \<Rightarrow> (Inl e, l1)
                                    | Inr local_process_index \<Rightarrow>
                                        (let b = (Min pis = local_process_index)
                                         in (Inr b, l1\<lparr>is_fully_addressable_m := Some b\<rparr>))))))))"

text \<open>The loop of the tuple's branch of \<^verbatim>\<open>AddressableDeviceList\<close>.\<close>

fun addressable_py_devices :: "py_obj list \<Rightarrow> exn + py_obj list" where
  "addressable_py_devices [] = Inr []"
| "addressable_py_devices (device # rest) =
     (case py_process_index device of
        Inl e \<Rightarrow> Inl e
      | Inr p \<Rightarrow>
          (case py_client_process_index device of
             Inl e \<Rightarrow> Inl e
           | Inr q \<Rightarrow>
               (case addressable_py_devices rest of
                  Inl e \<Rightarrow> Inl e
                | Inr ds \<Rightarrow> Inr (if p = q then device # ds else ds))))"

definition AddressableDeviceList :: "runtime \<Rightarrow> store \<Rightarrow> nat \<Rightarrow> (exn + nat) \<times> store" where
  "AddressableDeviceList rt s self =
     (case IsFullyAddressable (s ! self) of
        (Inl e, l1) \<Rightarrow> (Inl e, s[self := l1])
      | (Inr b, l1) \<Rightarrow>
          (let s1 = s[self := l1] in
           if b then (Inr self, s1)
           else (case addressable_device_list_m l1 of
                   Some r \<Rightarrow> (Inr r, s1)
                 | None \<Rightarrow>
                     (case device_list_m l1 of
                        IfrtDeviceList ds \<Rightarrow>
                          (let local_process_index =
                                 (case py_client_m l1 of
                                    Some c \<Rightarrow> process_index c
                                  | None \<Rightarrow> 0);
                               addressable_devices =
                                 filter (\<lambda>device. ProcessIndex device = local_process_index) ds
                           in case py_client_m l1 of
                                None \<Rightarrow> (Inl null_dereference, s1)
                              | Some c \<Rightarrow>
                                  (case MakeDeviceList rt c addressable_devices of
                                     Inl st \<Rightarrow> (Inl (XlaRuntimeError st), s1)
                                   | Inr dl \<Rightarrow>
                                       (let r = length s1;
                                            new = PyDeviceList_ifrt (py_client_m l1) dl
                                        in (Inr r,
                                            (s1 @ [new])
                                              [self := l1\<lparr>addressable_device_list_m := Some r\<rparr>]))))
                      | PyTuple t \<Rightarrow>
                          (case addressable_py_devices t of
                             Inl e \<Rightarrow> (Inl e, s1)
                           | Inr addressable_devices \<Rightarrow>
                               (case PyDeviceList_tuple rt addressable_devices of
                                  Inl e \<Rightarrow> (Inl e, s1)
                                | Inr new \<Rightarrow>
                                    (let r = length s1
                                     in (Inr r,
                                         (s1 @ [new])
                                           [self := l1\<lparr>addressable_device_list_m := Some r\<rparr>]))))))))"

subsection \<open>Device kind and memory kinds\<close>

definition DeviceKind :: "PyDeviceList \<Rightarrow> (exn + string) \<times> PyDeviceList" where
  "DeviceKind l =
     (case device_kind_m l of
        Some k \<Rightarrow> (Inr k, l)
      | None \<Rightarrow>
          (case device_list_m l of
             PyTuple t \<Rightarrow>
               (Inl (value_error
                  (ToString (InvalidArgument ''DeviceList contains non-IFRT devices''))), l)
           | IfrtDeviceList ds \<Rightarrow>
               (case ds of
                  [] \<Rightarrow> (Inl (value_error ''DeviceList is empty''), l)
                | device # rest \<Rightarrow> (Inr (Kind device), l\<lparr>device_kind_m := Some (Kind device)\<rparr>))))"

text \<open>
  \<^verbatim>\<open>PopulateMemoryKindInfoForDuckTypedDevices\<close>; \<open>t\<close> is \<^verbatim>\<open>std::get<1>(device_list_)\<close>.
  A default-initialised \<^verbatim>\<open>MemoryKindInfo\<close> holds the empty tuple.
\<close>

definition PopulateMemoryKindInfoForDuckTypedDevices ::
  "py_obj list \<Rightarrow> PyDeviceList \<Rightarrow> PyDeviceList"
where
  "PopulateMemoryKindInfoForDuckTypedDevices t l =
     (case t of
        [] \<Rightarrow>
          l\<lparr>memory_kind_info_m :=
              Some (Inr \<lparr>default_memory_kind = PyNone, memory_kinds = []\<rparr>)\<rparr>
      | device # rest \<Rightarrow>
          (case py_default_memory_kind device of
             Inl what \<Rightarrow> l\<lparr>memory_kind_info_m := Some (Inl (InvalidArgument what))\<rparr>
           | Inr kind \<Rightarrow>
               (case py_addressable_memories device of
                  Inl what \<Rightarrow> l\<lparr>memory_kind_info_m := Some (Inl (InvalidArgument what))\<rparr>
                | Inr kinds \<Rightarrow>
                    l\<lparr>memory_kind_info_m :=
                        Some (Inr \<lparr>default_memory_kind = kind, memory_kinds = kinds\<rparr>)\<rparr>)))"

definition PopulateMemoryKindInfo :: "PyDeviceList \<Rightarrow> PyDeviceList" where
  "PopulateMemoryKindInfo l =
     (case device_list_m l of
        PyTuple t \<Rightarrow> PopulateMemoryKindInfoForDuckTypedDevices t l
      | IfrtDeviceList ds \<Rightarrow>
          (case ds of
             [] \<Rightarrow>
               l\<lparr>memory_kind_info_m :=
                   Some (Inr \<lparr>default_memory_kind = PyNone, memory_kinds = []\<rparr>)\<rparr>
           | device # rest \<Rightarrow>
               (case DefaultMemory device of
                  Inl st \<Rightarrow> l\<lparr>memory_kind_info_m := Some (Inl st)\<rparr>
                | Inr kind \<Rightarrow>
                    l\<lparr>memory_kind_info_m :=
                        Some (Inr \<lparr>default_memory_kind = PyStr kind,
                                   memory_kinds = map PyStr (Memories device)\<rparr>)\<rparr>)))"

text \<open>
  \<^verbatim>\<open>MemoryKinds\<close> and \<^verbatim>\<open>DefaultMemoryKind\<close> return \<^verbatim>\<open>absl::StatusOr\<close>. The member
  has a value after \<^verbatim>\<open>PopulateMemoryKindInfo\<close>; the branch for \<open>None\<close> is never taken
  (lemma \<open>PopulateMemoryKindInfo_has_value\<close>).
\<close>

definition MemoryKinds :: "PyDeviceList \<Rightarrow> (Status + py_value list) \<times> PyDeviceList" where
  "MemoryKinds self =
     (let l = (if memory_kind_info_m self = None then PopulateMemoryKindInfo self else self) in
      case memory_kind_info_m l of
        None \<Rightarrow> (Inl (StatusError ''memory_kind_info_ has no value''), l)
      | Some (Inl st) \<Rightarrow> (Inl st, l)
      | Some (Inr info) \<Rightarrow> (Inr (memory_kinds info), l))"

definition DefaultMemoryKind :: "PyDeviceList \<Rightarrow> (Status + py_value) \<times> PyDeviceList" where
  "DefaultMemoryKind self =
     (let l = (if memory_kind_info_m self = None then PopulateMemoryKindInfo self else self) in
      case memory_kind_info_m l of
        None \<Rightarrow> (Inl (StatusError ''memory_kind_info_ has no value''), l)
      | Some (Inl st) \<Rightarrow> (Inl st, l)
      | Some (Inr info) \<Rightarrow> (Inr (default_memory_kind info), l))"

text \<open>
  A sequence of memory-kind queries on one object: the outcomes in order (a memory-kind
  tuple or a default memory kind), and the object after the last one.
\<close>

datatype memory_query = QueryMemoryKinds | QueryDefaultMemoryKind

datatype memory_answer = AnswerMemoryKinds "py_value list" | AnswerDefaultMemoryKind py_value

fun memory_query_run :: "memory_query \<Rightarrow> PyDeviceList \<Rightarrow> (Status + memory_answer) \<times> PyDeviceList" where
  "memory_query_run QueryMemoryKinds l =
     (case MemoryKinds l of
        (Inl st, l') \<Rightarrow> (Inl st, l')
      | (Inr kinds, l') \<Rightarrow> (Inr (AnswerMemoryKinds kinds), l'))"
| "memory_query_run QueryDefaultMemoryKind l =
     (case DefaultMemoryKind l of
        (Inl st, l') \<Rightarrow> (Inl st, l')
      | (Inr kind, l') \<Rightarrow> (Inr (AnswerDefaultMemoryKind kind), l'))"

fun memory_queries_run ::
  "memory_query list \<Rightarrow> PyDeviceList \<Rightarrow> (Status + memory_answer) list \<times> PyDeviceList"
where
  "memory_queries_run [] l = ([], l)"
| "memory_queries_run (q # qs) l =
     (case memory_query_run q l of
        (r, l') \<Rightarrow> (case memory_queries_run qs l' of (rs, l'') \<Rightarrow> (r # rs, l'')))"

subsection \<open>Serialisation\<close>

text \<open>
  \<^verbatim>\<open>__getstate__\<close> is \<^verbatim>\<open>Dump\<close> and \<^verbatim>\<open>__setstate__\<close> constructs the object from the
  tuple. \<open>getstate_setstate\<close> serialises the object at \<open>self\<close> and puts the object built
  from its state into the store; it returns the new object's address.
\<close>

definition getstate_setstate :: "runtime \<Rightarrow> store \<Rightarrow> nat \<Rightarrow> (exn + nat) \<times> store" where
  "getstate_setstate rt s self =
     (case Dump (s ! self) of
        Inl e \<Rightarrow> (Inl e, s)
      | Inr t \<Rightarrow>
          (case PyDeviceList_tuple rt t of
             Inl e \<Rightarrow> (Inl e, s)
           | Inr new \<Rightarrow> (Inr (length s), s @ [new])))"

subsection \<open>Notions used by the properties\<close>

text \<open>The runtime devices of the \<^verbatim>\<open>jax::PyDevice\<close> elements of a tuple, in order.\<close>

fun native_devices :: "py_obj list \<Rightarrow> ifrt_device list" where
  "native_devices [] = []"
| "native_devices (PyDevice c d # rest) = d # native_devices rest"
| "native_devices (DuckDevice k # rest) = native_devices rest"

text \<open>
  The member \<^verbatim>\<open>hash_\<close> is valid when it is unset or holds the value that \<open>Hash\<close>
  computes for the list; only \<open>Hash\<close> writes it, so it is valid in every object the
  code builds. A list is hashable when \<open>Hash\<close> does not raise on it: \<^verbatim>\<open>nb::hash\<close>
  raises on a tuple with an unhashable element.
\<close>

definition hash_m_valid :: "runtime \<Rightarrow> PyDeviceList \<Rightarrow> bool" where
  "hash_m_valid rt l =
     (case hash_m l of
        None \<Rightarrow> True
      | Some h \<Rightarrow> fst (Hash rt (l\<lparr>hash_m := None\<rparr>)) = Inr h)"

definition hashable :: "runtime \<Rightarrow> PyDeviceList \<Rightarrow> bool" where
  "hashable rt l =
     (case device_list_m l of
        IfrtDeviceList ds \<Rightarrow> True
      | PyTuple t \<Rightarrow> (case nb_hash rt t of Inl e \<Rightarrow> False | Inr h \<Rightarrow> True))"

subsection \<open>Example values\<close>

definition client_A :: PyClient where
  "client_A = \<lparr>client_ptr = 1, process_index = 0\<rparr>"

definition client_B :: PyClient where
  "client_B = \<lparr>client_ptr = 2, process_index = 1\<rparr>"

definition device_local :: ifrt_device where
  "device_local = \<lparr>device_ptr = 10, ProcessIndex = 0, Kind = ''cpu'',
     DefaultMemory = Inr ''device'', Memories = [''device'', ''pinned_host'']\<rparr>"

definition device_remote :: ifrt_device where
  "device_remote = \<lparr>device_ptr = 11, ProcessIndex = 1, Kind = ''cpu'',
     DefaultMemory = Inr ''device'', Memories = [''device'', ''pinned_host'']\<rparr>"

definition device_no_memory :: ifrt_device where
  "device_no_memory = \<lparr>device_ptr = 12, ProcessIndex = 0, Kind = ''cpu'',
     DefaultMemory = Inl (StatusError ''no default memory''), Memories = []\<rparr>"

definition duck_local :: duck_device where
  "duck_local = \<lparr>duck_id = 20, duck_process_index = Inr 0, duck_client_process_index = Inr 0,
     duck_default_memory_kind = Inr (PyStr ''device''),
     duck_addressable_memories = Inr [PyStr ''device'']\<rparr>"

definition duck_other :: duck_device where
  "duck_other = \<lparr>duck_id = 21, duck_process_index = Inr 1, duck_client_process_index = Inr 1,
     duck_default_memory_kind = Inl ''default_memory is not callable'',
     duck_addressable_memories = Inr []\<rparr>"

text \<open>
  An example runtime: the two hash functions are different functions, distinct objects
  are unequal, and the client accepts every device list.
\<close>

definition runtime_example :: runtime where
  "runtime_example =
     \<lparr>absl_HashOf = (\<lambda>ds. word_of_nat (sum_list (map device_ptr ds))),
      nb_hash = (\<lambda>t. Inr (word_of_nat (length t) + 5740354900026072187)),
      py_eq = (\<lambda>x y. Inr False),
      MakeDeviceList = (\<lambda>c ds. Inr ds)\<rparr>"

text \<open>Example stores.\<close>

definition store_remote :: store where
  "store_remote = [PyDeviceList_ifrt (Some client_A) [device_remote]]"

definition store_local :: store where
  "store_local = [PyDeviceList_ifrt (Some client_A) [device_local]]"

definition store_ducks :: store where
  "store_ducks = [new_PyDeviceList None (PyTuple [DuckDevice duck_local, DuckDevice duck_other])]"

definition store_empty_lists :: store where
  "store_empty_lists = [PyDeviceList_ifrt (Some client_A) [], new_PyDeviceList None (PyTuple [])]"

section \<open>Properties\<close>

subsection \<open>Equality with other objects and with itself\<close>

text \<open>
  Claim C10. For every object that is not a device list, \<open>Equal\<close> returns false and
  \<open>NotEqual\<close> returns true, and neither raises. For every device list, \<open>Equal\<close> of the
  list and itself returns true. In both cases the store is returned as it was, whatever
  the runtime's hash functions are: no hash is computed and none is stored.
\<close>

theorem C10_Equal_non_device_list_and_self:
  "Equal rt s self (OtherObject v) = (Inr False, s)
   \<and> NotEqual rt s self (OtherObject v) = (Inr True, s)
   \<and> Equal rt s self (DeviceListObject self) = (Inr True, s)"
  by (simp add: Equal_def NotEqual_def)

theorem C10_witness:
  "Equal runtime_example [PyDeviceList_ifrt (Some client_A) [device_local]] 0 (OtherObject PyNone)
     = (Inr False, [PyDeviceList_ifrt (Some client_A) [device_local]])
   \<and> NotEqual runtime_example [PyDeviceList_ifrt (Some client_A) [device_local]] 0 (OtherObject PyNone)
     = (Inr True, [PyDeviceList_ifrt (Some client_A) [device_local]])
   \<and> Equal runtime_example [PyDeviceList_ifrt (Some client_A) [device_local]] 0 (DeviceListObject 0)
     = (Inr True, [PyDeviceList_ifrt (Some client_A) [device_local]])"
  using C10_Equal_non_device_list_and_self
    [of runtime_example "[PyDeviceList_ifrt (Some client_A) [device_local]]" 0 PyNone]
  by simp

subsection \<open>Indexing a runtime device list\<close>

text \<open>
  Claim C9. On a device list in the runtime representation with \<open>n\<close> devices,
  \<open>GetItem\<close> raises an index error for every index below \<open>-n\<close> and every index from
  \<open>n\<close> on; with the owning client \<open>c\<close> it returns the handle of the device at position
  \<open>index + n\<close> for \<open>-n \<le> index < 0\<close> and of the device at position \<open>index\<close> for
  \<open>0 \<le> index < n\<close>.
\<close>

theorem C9_GetItem_native:
  assumes "device_list_m l = IfrtDeviceList ds"
  shows "(index < - int (length ds) \<or> index \<ge> int (length ds) \<longrightarrow> GetItem l index = Inl index_error)
       \<and> (py_client_m l = Some c \<longrightarrow>
            (- int (length ds) \<le> index \<and> index < 0 \<longrightarrow>
               GetItem l index = Inr (GetPyDevice c (ds ! nat (index + int (length ds)))))
          \<and> (0 \<le> index \<and> index < int (length ds) \<longrightarrow>
               GetItem l index = Inr (GetPyDevice c (ds ! nat index))))"
  using assms by (auto simp: GetItem_def Let_def)

theorem C9_witness:
  "GetItem (PyDeviceList_ifrt (Some client_A) [device_local, device_remote]) (- 1)
     = Inr (PyDevice client_A device_remote)
   \<and> GetItem (PyDeviceList_ifrt (Some client_A) [device_local, device_remote]) (- 3)
     = Inl index_error"
  using C9_GetItem_native [of "PyDeviceList_ifrt (Some client_A) [device_local, device_remote]"
      "[device_local, device_remote]" "- 1" client_A]
    C9_GetItem_native [of "PyDeviceList_ifrt (Some client_A) [device_local, device_remote]"
      "[device_local, device_remote]" "- 3" client_A]
  by (simp add: PyDeviceList_ifrt_def new_PyDeviceList_def GetPyDevice_def)

subsection \<open>Memory kinds\<close>

lemma PopulateMemoryKindInfo_has_value: "memory_kind_info_m (PopulateMemoryKindInfo l) \<noteq> None"
  by (auto simp: PopulateMemoryKindInfo_def PopulateMemoryKindInfoForDuckTypedDevices_def
      split: device_list_variant.splits list.splits sum.splits)

lemma memory_query_run_cached_failure:
  "memory_kind_info_m l = Some (Inl st) \<Longrightarrow> memory_query_run q l = (Inl st, l)"
  by (cases q) (simp_all add: MemoryKinds_def DefaultMemoryKind_def)

lemma memory_queries_run_cached_failure:
  "memory_kind_info_m l = Some (Inl st) \<Longrightarrow>
   memory_queries_run qs l = (replicate (length qs) (Inl st), l)"
  by (induction qs) (simp_all add: memory_query_run_cached_failure)

lemma PopulateMemoryKindInfo_failure:
  assumes "(\<exists>device rest. device_list_m l = IfrtDeviceList (device # rest)
              \<and> DefaultMemory device = Inl st)
         \<or> (\<exists>device rest what. device_list_m l = PyTuple (device # rest)
              \<and> py_default_memory_kind device = Inl what \<and> st = InvalidArgument what)"
  shows "PopulateMemoryKindInfo l = l\<lparr>memory_kind_info_m := Some (Inl st)\<rparr>"
  using assms
  by (auto simp: PopulateMemoryKindInfo_def PopulateMemoryKindInfoForDuckTypedDevices_def)

lemma memory_query_run_first_failure:
  assumes "memory_kind_info_m l = None"
    and "PopulateMemoryKindInfo l = l\<lparr>memory_kind_info_m := Some (Inl st)\<rparr>"
  shows "memory_query_run q l = (Inl st, l\<lparr>memory_kind_info_m := Some (Inl st)\<rparr>)"
  using assms by (cases q) (simp_all add: MemoryKinds_def DefaultMemoryKind_def)

text \<open>
  Claim C7. Take a list whose memory-kind information has not been computed and whose
  first device fails to report its default memory (with status \<open>st\<close>; for a duck-typed
  device the Python error is wrapped in an invalid-argument status). Then the first
  query, whichever of \<open>MemoryKinds\<close> and \<open>DefaultMemoryKind\<close> it is, returns \<open>st\<close> and
  stores it in the member, and every query after it returns \<open>st\<close> too. Moreover any
  object whose member holds \<open>st\<close> answers every sequence of queries with \<open>st\<close> and is
  left unchanged, whatever its devices would report now: nothing is computed again.
\<close>

theorem C7_memory_kind_failure_is_cached:
  assumes "memory_kind_info_m l = None"
    and "(\<exists>device rest. device_list_m l = IfrtDeviceList (device # rest)
              \<and> DefaultMemory device = Inl st)
         \<or> (\<exists>device rest what. device_list_m l = PyTuple (device # rest)
              \<and> py_default_memory_kind device = Inl what \<and> st = InvalidArgument what)"
  shows "memory_queries_run (q # qs) l
           = (replicate (Suc (length qs)) (Inl st), l\<lparr>memory_kind_info_m := Some (Inl st)\<rparr>)
       \<and> (\<forall>l'. memory_kind_info_m l' = Some (Inl st) \<longrightarrow>
             memory_queries_run qs l' = (replicate (length qs) (Inl st), l'))"
proof -
  have first: "memory_query_run q l = (Inl st, l\<lparr>memory_kind_info_m := Some (Inl st)\<rparr>)"
    using memory_query_run_first_failure [OF assms(1) PopulateMemoryKindInfo_failure [OF assms(2)]] .
  have later: "memory_queries_run qs l' = (replicate (length qs) (Inl st), l')"
    if "memory_kind_info_m l' = Some (Inl st)" for l'
    using that by (rule memory_queries_run_cached_failure)
  have "memory_queries_run qs (l\<lparr>memory_kind_info_m := Some (Inl st)\<rparr>)
          = (replicate (length qs) (Inl st), l\<lparr>memory_kind_info_m := Some (Inl st)\<rparr>)"
    by (rule later) simp
  with first later show ?thesis by simp
qed

theorem C7_witness:
  "memory_queries_run [QueryMemoryKinds, QueryDefaultMemoryKind, QueryMemoryKinds]
       (PyDeviceList_ifrt (Some client_A) [device_no_memory, device_local])
     = ([Inl (StatusError ''no default memory''), Inl (StatusError ''no default memory''),
         Inl (StatusError ''no default memory'')],
        (PyDeviceList_ifrt (Some client_A) [device_no_memory, device_local])
          \<lparr>memory_kind_info_m := Some (Inl (StatusError ''no default memory''))\<rparr>)"
  using C7_memory_kind_failure_is_cached
    [of "PyDeviceList_ifrt (Some client_A) [device_no_memory, device_local]"
        "StatusError ''no default memory''" QueryMemoryKinds
        "[QueryDefaultMemoryKind, QueryMemoryKinds]"]
  by (simp add: PyDeviceList_ifrt_def new_PyDeviceList_def device_no_memory_def)

subsection \<open>Memory kinds of an empty list\<close>

lemma memory_query_run_empty:
  assumes "Len l = 0"
    and "memory_kind_info_m l = None
         \<or> memory_kind_info_m l = Some (Inr \<lparr>default_memory_kind = PyNone, memory_kinds = []\<rparr>)"
  shows "memory_query_run q l =
           (case q of QueryMemoryKinds \<Rightarrow> Inr (AnswerMemoryKinds [])
                    | QueryDefaultMemoryKind \<Rightarrow> Inr (AnswerDefaultMemoryKind PyNone),
            l\<lparr>memory_kind_info_m :=
                Some (Inr \<lparr>default_memory_kind = PyNone, memory_kinds = []\<rparr>)\<rparr>)"
  using assms
  by (cases q)
     (auto simp: MemoryKinds_def DefaultMemoryKind_def Len_def PopulateMemoryKindInfo_def
        PopulateMemoryKindInfoForDuckTypedDevices_def split: device_list_variant.splits)

lemma memory_queries_run_empty:
  assumes "Len l = 0"
    and "memory_kind_info_m l = None
         \<or> memory_kind_info_m l = Some (Inr \<lparr>default_memory_kind = PyNone, memory_kinds = []\<rparr>)"
  shows "fst (memory_queries_run qs l) =
           map (\<lambda>q. case q of QueryMemoryKinds \<Rightarrow> Inr (AnswerMemoryKinds [])
                    | QueryDefaultMemoryKind \<Rightarrow> Inr (AnswerDefaultMemoryKind PyNone)) qs"
  using assms
proof (induction qs arbitrary: l)
  case Nil
  then show ?case by simp
next
  case (Cons q qs)
  let ?l' = "l\<lparr>memory_kind_info_m :=
                Some (Inr \<lparr>default_memory_kind = PyNone, memory_kinds = []\<rparr>)\<rparr>"
  have step: "memory_query_run q l =
           (case q of QueryMemoryKinds \<Rightarrow> Inr (AnswerMemoryKinds [])
                    | QueryDefaultMemoryKind \<Rightarrow> Inr (AnswerDefaultMemoryKind PyNone), ?l')"
    using Cons.prems by (rule memory_query_run_empty)
  have "Len ?l' = 0" using Cons.prems(1) by (simp add: Len_def)
  then have "fst (memory_queries_run qs ?l') =
           map (\<lambda>q. case q of QueryMemoryKinds \<Rightarrow> Inr (AnswerMemoryKinds [])
                    | QueryDefaultMemoryKind \<Rightarrow> Inr (AnswerDefaultMemoryKind PyNone)) qs"
    by (rule Cons.IH) simp
  with step show ?case by (auto split: prod.splits)
qed

text \<open>
  Claim C8. On every empty list, of either representation, whose memory-kind
  information has not been computed yet, \<open>DefaultMemoryKind\<close> returns \<open>None\<close> of
  Python and \<open>MemoryKinds\<close> returns the empty tuple; and every sequence of such
  queries on it returns these values, none of them a failure.
\<close>

theorem C8_empty_list_memory_kinds:
  assumes "Len l = 0" and "memory_kind_info_m l = None"
  shows "fst (DefaultMemoryKind l) = Inr PyNone
       \<and> fst (MemoryKinds l) = Inr []
       \<and> fst (memory_queries_run qs l) =
           map (\<lambda>q. case q of QueryMemoryKinds \<Rightarrow> Inr (AnswerMemoryKinds [])
                    | QueryDefaultMemoryKind \<Rightarrow> Inr (AnswerDefaultMemoryKind PyNone)) qs"
proof -
  have "fst (DefaultMemoryKind l) = Inr PyNone" "fst (MemoryKinds l) = Inr []"
    using assms
    by (auto simp: MemoryKinds_def DefaultMemoryKind_def Len_def PopulateMemoryKindInfo_def
        PopulateMemoryKindInfoForDuckTypedDevices_def split: device_list_variant.splits)
  moreover have "fst (memory_queries_run qs l) =
           map (\<lambda>q. case q of QueryMemoryKinds \<Rightarrow> Inr (AnswerMemoryKinds [])
                    | QueryDefaultMemoryKind \<Rightarrow> Inr (AnswerDefaultMemoryKind PyNone)) qs"
    using assms by (intro memory_queries_run_empty) simp_all
  ultimately show ?thesis by simp
qed

theorem C8_witness:
  "fst (DefaultMemoryKind (new_PyDeviceList None (PyTuple []))) = Inr PyNone
   \<and> fst (MemoryKinds (new_PyDeviceList None (PyTuple []))) = Inr []
   \<and> fst (DefaultMemoryKind (PyDeviceList_ifrt (Some client_A) [])) = Inr PyNone
   \<and> fst (MemoryKinds (PyDeviceList_ifrt (Some client_A) [])) = Inr []
   \<and> fst (memory_queries_run [QueryMemoryKinds, QueryDefaultMemoryKind]
            (PyDeviceList_ifrt (Some client_A) []))
       = [Inr (AnswerMemoryKinds []), Inr (AnswerDefaultMemoryKind PyNone)]"
  using C8_empty_list_memory_kinds [of "new_PyDeviceList None (PyTuple [])" "[]"]
    C8_empty_list_memory_kinds [of "PyDeviceList_ifrt (Some client_A) []"
      "[QueryMemoryKinds, QueryDefaultMemoryKind]"]
  by (simp add: PyDeviceList_ifrt_def new_PyDeviceList_def Len_def)

subsection \<open>Process indices and addressability of an empty list\<close>

lemma ProcessIndices_empty:
  assumes "Len l = 0" and "process_indices_m l = None"
  shows "ProcessIndices l = (Inr {}, l\<lparr>process_indices_m := Some {}\<rparr>)"
  using assms
  by (auto simp: ProcessIndices_def Len_def split: device_list_variant.splits)

lemma IsFullyAddressable_empty:
  assumes "Len l = 0" and "process_indices_m l = None" and "is_fully_addressable_m l = None"
  shows "IsFullyAddressable l =
           (Inl (check_failure ''process_indices_->size() == 1''), l\<lparr>process_indices_m := Some {}\<rparr>)"
  using assms by (simp add: IsFullyAddressable_def ProcessIndices_empty)

text \<open>
  Claim C2. The claim is that on every empty list \<open>ProcessIndices\<close> returns the empty
  set and \<open>IsFullyAddressable\<close> returns true. The code returns the empty set, and then
  fails \<^verbatim>\<open>CHECK_EQ(process_indices_->size(), 1)\<close> in \<open>IsFullyAddressable\<close>: on the
  empty tuple's list and on an empty runtime list alike, the outcome is the failed check
  and not \<open>True\<close>.
\<close>

theorem C2_empty_list_fails_check:
  "PyDeviceList_tuple runtime_example [] = Inr (new_PyDeviceList None (PyTuple []))
   \<and> Len (new_PyDeviceList None (PyTuple [])) = 0
   \<and> fst (ProcessIndices (new_PyDeviceList None (PyTuple []))) = Inr {}
   \<and> fst (IsFullyAddressable (new_PyDeviceList None (PyTuple [])))
       = Inl (check_failure ''process_indices_->size() == 1'')
   \<and> Len (PyDeviceList_ifrt (Some client_A) []) = 0
   \<and> fst (ProcessIndices (PyDeviceList_ifrt (Some client_A) [])) = Inr {}
   \<and> fst (IsFullyAddressable (PyDeviceList_ifrt (Some client_A) []))
       = Inl (check_failure ''process_indices_->size() == 1'')"
  by (simp add: PyDeviceList_tuple_def PyDeviceList_ifrt_def new_PyDeviceList_def Len_def
      ProcessIndices_def IsFullyAddressable_def)

subsection \<open>The addressable sublist\<close>

lemma AddressableDeviceList_store_remote:
  "AddressableDeviceList runtime_example store_remote 0 =
     (Inr 1,
      [(PyDeviceList_ifrt (Some client_A) [device_remote])
         \<lparr>process_indices_m := Some {1}, is_fully_addressable_m := Some False,
          addressable_device_list_m := Some 1\<rparr>,
       PyDeviceList_ifrt (Some client_A) []])"
  by (simp add: store_remote_def AddressableDeviceList_def IsFullyAddressable_def
      ProcessIndices_def PyDeviceList_ifrt_def new_PyDeviceList_def client_A_def device_remote_def
      runtime_example_def Let_def)

text \<open>
  Claim C3. The claim is that the addressable sublist of a list that is not fully
  addressable is fully addressable, also when it has no devices. For the list of one
  device of another process, \<open>IsFullyAddressable\<close> returns false and
  \<open>AddressableDeviceList\<close> returns a new list of no devices, on which
  \<open>IsFullyAddressable\<close> fails the same check as for claim C2 and does not return true.
\<close>

theorem C3_empty_addressable_sublist_fails_check:
  "fst (IsFullyAddressable (store_remote ! 0)) = Inr False
   \<and> fst (AddressableDeviceList runtime_example store_remote 0) = Inr 1
   \<and> Len (snd (AddressableDeviceList runtime_example store_remote 0) ! 1) = 0
   \<and> fst (IsFullyAddressable (snd (AddressableDeviceList runtime_example store_remote 0) ! 1))
       = Inl (check_failure ''process_indices_->size() == 1'')"
  by (simp add: AddressableDeviceList_store_remote)
     (simp add: store_remote_def IsFullyAddressable_def ProcessIndices_def Len_def
        PyDeviceList_ifrt_def new_PyDeviceList_def client_A_def device_remote_def Let_def)

text \<open>
  A second input: two duck-typed devices, each of the process of its own client, the
  clients being of different processes. The sublist holds both devices and is not fully
  addressable either.
\<close>

lemma AddressableDeviceList_ducks_not_fully_addressable:
  "fst (IsFullyAddressable (store_ducks ! 0)) = Inr False
   \<and> fst (AddressableDeviceList runtime_example store_ducks 0) = Inr 1
   \<and> fst (IsFullyAddressable (snd (AddressableDeviceList runtime_example store_ducks 0) ! 1))
       = Inr False"
  by (simp add: store_ducks_def AddressableDeviceList_def IsFullyAddressable_def
      ProcessIndices_def PyDeviceList_tuple_def new_PyDeviceList_def duck_local_def duck_other_def
      runtime_example_def Let_def)

subsection \<open>The representation chosen by the constructor\<close>

lemma convert_devices_same_client:
  assumes "\<forall>x\<in>set t. \<exists>d. x = PyDevice c d"
  shows "convert_devices t (Some c) devices = (Some c, Some (devices @ native_devices t))"
  using assms
proof (induction t arbitrary: devices)
  case Nil
  then show ?case by simp
next
  case (Cons x t)
  then obtain d where x: "x = PyDevice c d" by auto
  from Cons.prems have rest: "\<forall>x\<in>set t. \<exists>d. x = PyDevice c d" by simp
  show ?case using Cons.IH [OF rest, of "devices @ [d]"] by (simp add: x)
qed

lemma convert_devices_all_native:
  assumes "t \<noteq> []" and "\<forall>x\<in>set t. \<exists>d. x = PyDevice c d"
  shows "convert_devices t None [] = (Some c, Some (native_devices t))"
proof (cases t)
  case Nil
  with assms(1) show ?thesis by simp
next
  case (Cons x rest)
  with assms(2) obtain d where x: "x = PyDevice c d" by auto
  from Cons assms(2) have "\<forall>x\<in>set rest. \<exists>d. x = PyDevice c d" by simp
  from convert_devices_same_client [OF this, of "[d]"] show ?thesis
    by (simp add: Cons x)
qed

lemma convert_devices_falls_back_client:
  assumes "\<not> (\<forall>x\<in>set t. \<exists>d. x = PyDevice c d)"
  shows "\<exists>pc. convert_devices t (Some c) devices = (pc, None)"
  using assms
proof (induction t arbitrary: devices)
  case Nil
  then show ?case by simp
next
  case (Cons x t)
  show ?case
  proof (cases x)
    case (DuckDevice k)
    then show ?thesis by simp
  next
    case (PyDevice c' d)
    show ?thesis
    proof (cases "c' = c")
      case True
      with Cons.prems PyDevice have "\<not> (\<forall>x\<in>set t. \<exists>d. x = PyDevice c d)" by simp
      from Cons.IH [OF this, of "devices @ [d]"] show ?thesis by (simp add: PyDevice True)
    next
      case False
      then show ?thesis by (simp add: PyDevice)
    qed
  qed
qed

lemma convert_devices_falls_back:
  assumes "\<not> (\<exists>c. \<forall>x\<in>set t. \<exists>d. x = PyDevice c d)"
  shows "\<exists>pc. convert_devices t None [] = (pc, None)"
proof (cases t)
  case Nil
  with assms show ?thesis by simp
next
  case (Cons x rest)
  show ?thesis
  proof (cases x)
    case (DuckDevice k)
    then show ?thesis by (simp add: Cons)
  next
    case (PyDevice c d)
    from assms have "\<not> (\<forall>x\<in>set t. \<exists>d. x = PyDevice c d)" by blast
    with Cons PyDevice have "\<not> (\<forall>x\<in>set rest. \<exists>d. x = PyDevice c d)" by simp
    from convert_devices_falls_back_client [OF this, of "[d]"] show ?thesis
      by (simp add: Cons PyDevice)
  qed
qed

lemma PyDeviceList_tuple_all_native:
  assumes "t \<noteq> []" and "\<forall>x\<in>set t. \<exists>d. x = PyDevice c d"
  shows "PyDeviceList_tuple rt t =
           (case MakeDeviceList rt c (native_devices t) of
              Inl st \<Rightarrow> Inl (XlaRuntimeError st)
            | Inr dl \<Rightarrow> Inr (new_PyDeviceList (Some c) (IfrtDeviceList dl)))"
  using assms(1) by (simp add: PyDeviceList_tuple_def convert_devices_all_native [OF assms])

lemma PyDeviceList_tuple_falls_back:
  assumes "\<not> (\<exists>c. \<forall>x\<in>set t. \<exists>d. x = PyDevice c d)"
  shows "\<exists>pc. PyDeviceList_tuple rt t = Inr (new_PyDeviceList pc (PyTuple t))"
proof -
  from convert_devices_falls_back [OF assms] obtain pc where
    "convert_devices t None [] = (pc, None)" by blast
  then show ?thesis by (auto simp: PyDeviceList_tuple_def split: option.splits)
qed

text \<open>
  Claim C6. For a non-empty tuple of device objects: if the constructor produces the
  runtime representation, then every element is a \<^verbatim>\<open>jax::PyDevice\<close> and all elements
  have one client; conversely, if every element is a \<^verbatim>\<open>jax::PyDevice\<close> of one client
  \<open>c\<close>, whose \<open>MakeDeviceList\<close> accepts the elements' devices, the constructor produces
  the runtime representation of these devices, in order, with \<open>c\<close> as owning client. In
  every other case (an element that is no \<^verbatim>\<open>jax::PyDevice\<close>, or one of another client
  than the first) the constructor returns, without an error, a list that keeps the
  tuple.
\<close>

theorem C6_tuple_constructor_representation:
  assumes "t \<noteq> []"
  shows "((\<exists>l ds. PyDeviceList_tuple rt t = Inr l \<and> device_list_m l = IfrtDeviceList ds)
            \<longrightarrow> (\<exists>c. \<forall>x\<in>set t. \<exists>d. x = PyDevice c d))
       \<and> (\<forall>c. (\<forall>x\<in>set t. \<exists>d. x = PyDevice c d)
                \<and> MakeDeviceList rt c (native_devices t) = Inr (native_devices t) \<longrightarrow>
              PyDeviceList_tuple rt t
                = Inr (new_PyDeviceList (Some c) (IfrtDeviceList (native_devices t))))
       \<and> (\<not> (\<exists>c. \<forall>x\<in>set t. \<exists>d. x = PyDevice c d) \<longrightarrow>
            (\<exists>pc. PyDeviceList_tuple rt t = Inr (new_PyDeviceList pc (PyTuple t))))"
proof -
  have native: "PyDeviceList_tuple rt t
                   = Inr (new_PyDeviceList (Some c) (IfrtDeviceList (native_devices t)))"
    if "\<forall>x\<in>set t. \<exists>d. x = PyDevice c d"
      and "MakeDeviceList rt c (native_devices t) = Inr (native_devices t)" for c
    using PyDeviceList_tuple_all_native [OF assms that(1), of rt] that(2) by simp
  have fallback: "\<exists>pc. PyDeviceList_tuple rt t = Inr (new_PyDeviceList pc (PyTuple t))"
    if "\<not> (\<exists>c. \<forall>x\<in>set t. \<exists>d. x = PyDevice c d)"
    using that by (rule PyDeviceList_tuple_falls_back)
  have only_if: "\<exists>c. \<forall>x\<in>set t. \<exists>d. x = PyDevice c d"
    if "\<exists>l ds. PyDeviceList_tuple rt t = Inr l \<and> device_list_m l = IfrtDeviceList ds"
  proof (rule ccontr)
    assume "\<not> (\<exists>c. \<forall>x\<in>set t. \<exists>d. x = PyDevice c d)"
    from fallback [OF this] that show False by (auto simp: new_PyDeviceList_def)
  qed
  from native fallback only_if show ?thesis by blast
qed

theorem C6_witness:
  "PyDeviceList_tuple runtime_example [PyDevice client_A device_local, PyDevice client_A device_remote]
     = Inr (new_PyDeviceList (Some client_A) (IfrtDeviceList [device_local, device_remote]))
   \<and> PyDeviceList_tuple runtime_example [PyDevice client_A device_local, PyDevice client_B device_remote]
     = Inr (new_PyDeviceList (Some client_A)
              (PyTuple [PyDevice client_A device_local, PyDevice client_B device_remote]))
   \<and> PyDeviceList_tuple runtime_example [DuckDevice duck_local, PyDevice client_B device_remote]
     = Inr (new_PyDeviceList None
              (PyTuple [DuckDevice duck_local, PyDevice client_B device_remote]))"
  using C6_tuple_constructor_representation
      [of "[PyDevice client_A device_local, PyDevice client_A device_remote]" runtime_example]
    C6_tuple_constructor_representation
      [of "[PyDevice client_A device_local, PyDevice client_B device_remote]" runtime_example]
    C6_tuple_constructor_representation
      [of "[DuckDevice duck_local, PyDevice client_B device_remote]" runtime_example]
  by (simp add: PyDeviceList_tuple_def runtime_example_def client_A_def client_B_def)

subsection \<open>Idempotence of the addressable sublist\<close>

lemma ProcessIndices_members:
  "case ProcessIndices l of (res, l1) \<Rightarrow>
     is_fully_addressable_m l1 = is_fully_addressable_m l
     \<and> addressable_device_list_m l1 = addressable_device_list_m l
     \<and> device_list_m l1 = device_list_m l
     \<and> py_client_m l1 = py_client_m l"
  by (simp add: ProcessIndices_def Let_def
      split: option.split device_list_variant.split prod.split)

lemma IsFullyAddressable_fresh:
  assumes "is_fully_addressable_m l = None" and "ProcessIndices l = (res0, l0)"
  shows "case IsFullyAddressable l of
           (Inl e, l1) \<Rightarrow> l1 = l0
         | (Inr b, l1) \<Rightarrow> l1 = l0\<lparr>is_fully_addressable_m := Some b\<rparr>"
  using assms
  by (simp add: IsFullyAddressable_def Let_def
      split: sum.split option.split device_list_variant.split list.split)

lemma IsFullyAddressable_cached:
  "is_fully_addressable_m l = Some b \<Longrightarrow> IsFullyAddressable l = (Inr b, l)"
  by (simp add: IsFullyAddressable_def)

lemma IsFullyAddressable_members:
  assumes "IsFullyAddressable l = (res, l1)"
  shows "addressable_device_list_m l1 = addressable_device_list_m l
       \<and> device_list_m l1 = device_list_m l
       \<and> py_client_m l1 = py_client_m l"
proof (cases "is_fully_addressable_m l")
  case (Some b)
  with assms show ?thesis by (simp add: IsFullyAddressable_def)
next
  case None
  obtain res0 l0 where pi: "ProcessIndices l = (res0, l0)" by (cases "ProcessIndices l")
  from ProcessIndices_members [of l] pi
  have m: "addressable_device_list_m l0 = addressable_device_list_m l"
    "device_list_m l0 = device_list_m l" "py_client_m l0 = py_client_m l"
    by simp_all
  from IsFullyAddressable_fresh [OF None pi] assms
  have "l1 = l0 \<or> (\<exists>b. l1 = l0\<lparr>is_fully_addressable_m := Some b\<rparr>)"
    by (cases res) auto
  with m show ?thesis by auto
qed

lemma IsFullyAddressable_returns:
  assumes "IsFullyAddressable l = (Inr b, l1)"
  shows "is_fully_addressable_m l1 = Some b"
proof (cases "is_fully_addressable_m l")
  case (Some b')
  with assms show ?thesis by (simp add: IsFullyAddressable_def)
next
  case None
  obtain res0 l0 where pi: "ProcessIndices l = (res0, l0)" by (cases "ProcessIndices l")
  from IsFullyAddressable_fresh [OF None pi] assms show ?thesis by simp
qed


lemma AddressableDeviceList_cached:
  assumes "is_fully_addressable_m (s ! self) = Some b"
    and "if b then r = self else addressable_device_list_m (s ! self) = Some r"
  shows "AddressableDeviceList rt s self = (Inr r, s)"
proof (cases b)
  case True
  with assms show ?thesis
    by (simp add: AddressableDeviceList_def IsFullyAddressable_cached)
next
  case False
  with assms show ?thesis
    by (simp add: AddressableDeviceList_def IsFullyAddressable_cached)
qed

lemma AddressableDeviceList_fresh:
  assumes "IsFullyAddressable (s ! self) = (Inr False, l1)"
    and "addressable_device_list_m l1 = None"
  shows "case AddressableDeviceList rt s self of
           (Inl e, s') \<Rightarrow> True
         | (Inr r, s') \<Rightarrow>
             r = length s
             \<and> (\<exists>new. s' = (s[self := l1] @ [new])
                              [self := l1\<lparr>addressable_device_list_m := Some (length s)\<rparr>])"
  using assms
  by (auto simp add: AddressableDeviceList_def Let_def
      split: device_list_variant.split option.split sum.split)

lemma AddressableDeviceList_returns:
  assumes valid: "self < length s"
    and call: "AddressableDeviceList rt s self = (Inr r, s1)"
  shows "\<exists>b. fst (IsFullyAddressable (s ! self)) = Inr b
           \<and> is_fully_addressable_m (s1 ! self) = Some b
           \<and> (if b then r = self
                     \<and> addressable_device_list_m (s1 ! self) = addressable_device_list_m (s ! self)
               else addressable_device_list_m (s1 ! self) = Some r
                     \<and> (addressable_device_list_m (s ! self) = Some r \<or> r = length s))"
proof -
  obtain res l1 where ifa: "IsFullyAddressable (s ! self) = (res, l1)"
    by (cases "IsFullyAddressable (s ! self)")
  from call ifa obtain b where res: "res = Inr b"
    by (cases res) (auto simp: AddressableDeviceList_def)
  note m = IsFullyAddressable_members [OF ifa]
  from ifa res have cached: "is_fully_addressable_m l1 = Some b"
    by (simp add: IsFullyAddressable_returns)
  show ?thesis
  proof (cases b)
    case True
    with call ifa res have "r = self" "s1 = s[self := l1]"
      by (auto simp: AddressableDeviceList_def)
    with valid m cached True ifa res show ?thesis by (intro exI [where x = b]) simp
  next
    case False
    show ?thesis
    proof (cases "addressable_device_list_m l1")
      case (Some r0)
      with call ifa res False have "r = r0" "s1 = s[self := l1]"
        by (auto simp: AddressableDeviceList_def)
      with valid m cached False ifa res Some show ?thesis by (intro exI [where x = b]) simp
    next
      case None
      from AddressableDeviceList_fresh [of s self l1 rt] ifa res False None call
      obtain new where "r = length s"
        and "s1 = (s[self := l1] @ [new])[self := l1\<lparr>addressable_device_list_m := Some (length s)\<rparr>]"
        by auto
      with valid cached False ifa res show ?thesis
        by (intro exI [where x = b]) (simp add: nth_append)
    qed
  qed
qed

text \<open>
  The call returns on every non-empty runtime list with an owning client whose
  \<open>MakeDeviceList\<close> accepts the addressable devices, when nothing is memoized yet.
\<close>

lemma insert_process_indices_image:
  "insert_process_indices ds acc = acc \<union> ProcessIndex ` set ds"
  by (induction ds arbitrary: acc) auto

lemma IsFullyAddressable_native_returns:
  assumes "device_list_m l = IfrtDeviceList ds" and "ds \<noteq> []"
    and "process_indices_m l = None" and "is_fully_addressable_m l = None"
  shows "\<exists>b l1. IsFullyAddressable l = (Inr b, l1)"
proof -
  let ?pis = "ProcessIndex ` set ds"
  have pi: "ProcessIndices l = (Inr ?pis, l\<lparr>process_indices_m := Some ?pis\<rparr>)"
    using assms(1,3) by (simp add: ProcessIndices_def insert_process_indices_image)
  have "finite ?pis" "?pis \<noteq> {}" using assms(2) by simp_all
  then have "card ?pis \<noteq> 0" by simp
  then have "card ?pis > 1 \<or> card ?pis = 1" by arith
  then show ?thesis
    using assms(1,4) pi by (auto simp: IsFullyAddressable_def Let_def)
qed

lemma AddressableDeviceList_native_returns:
  assumes "device_list_m (s ! self) = IfrtDeviceList ds" and "ds \<noteq> []"
    and "py_client_m (s ! self) = Some c"
    and "process_indices_m (s ! self) = None" and "is_fully_addressable_m (s ! self) = None"
    and "MakeDeviceList rt c (filter (\<lambda>device. ProcessIndex device = process_index c) ds) = Inr dl"
  shows "\<exists>r s1. AddressableDeviceList rt s self = (Inr r, s1)"
proof -
  from IsFullyAddressable_native_returns [OF assms(1,2,4,5)] obtain b l1 where
    ifa: "IsFullyAddressable (s ! self) = (Inr b, l1)" by blast
  note m = IsFullyAddressable_members [OF ifa]
  show ?thesis
  proof (cases b)
    case True
    with ifa show ?thesis by (simp add: AddressableDeviceList_def)
  next
    case False
    show ?thesis
    proof (cases "addressable_device_list_m l1")
      case (Some r0)
      with ifa False show ?thesis by (simp add: AddressableDeviceList_def)
    next
      case None
      with ifa False m assms(1,3,6) show ?thesis
        by (simp add: AddressableDeviceList_def Let_def)
    qed
  qed
qed

text \<open>
  Where the call returns, it is idempotent: whenever \<open>AddressableDeviceList\<close> returns
  a list \<open>r\<close>, a second call returns the same instance \<open>r\<close> and changes nothing in
  the store, under any runtime, and \<open>r\<close> equals itself. When the list is fully addressable, \<open>r\<close> is the list itself
  and the member \<^verbatim>\<open>addressable_device_list_\<close> is as it was before the call; and in
  every case a member that did not hold the list itself does not hold it after the call.
\<close>

lemma AddressableDeviceList_idempotent:
  assumes "self < length s"
    and "AddressableDeviceList rt s self = (Inr r, s1)"
  shows "AddressableDeviceList rt' s1 self = (Inr r, s1)
       \<and> Equal rt' s1 r (DeviceListObject r) = (Inr True, s1)
       \<and> (fst (IsFullyAddressable (s ! self)) = Inr True \<longrightarrow>
            r = self
            \<and> addressable_device_list_m (s1 ! self) = addressable_device_list_m (s ! self))
       \<and> (addressable_device_list_m (s ! self) \<noteq> Some self \<longrightarrow>
            addressable_device_list_m (s1 ! self) \<noteq> Some self)"
proof -
  from AddressableDeviceList_returns [OF assms] obtain b where
    b: "fst (IsFullyAddressable (s ! self)) = Inr b"
    and cached: "is_fully_addressable_m (s1 ! self) = Some b"
    and r: "if b then r = self
                     \<and> addressable_device_list_m (s1 ! self) = addressable_device_list_m (s ! self)
            else addressable_device_list_m (s1 ! self) = Some r
                     \<and> (addressable_device_list_m (s ! self) = Some r \<or> r = length s)"
    by blast
  have again: "AddressableDeviceList rt' s1 self = (Inr r, s1)"
  proof (rule AddressableDeviceList_cached [OF cached])
    show "if b then r = self else addressable_device_list_m (s1 ! self) = Some r"
      using r by (simp split: if_splits)
  qed
  have equal: "Equal rt' s1 r (DeviceListObject r) = (Inr True, s1)"
    by (simp add: Equal_def)
  have self_returned: "r = self
      \<and> addressable_device_list_m (s1 ! self) = addressable_device_list_m (s ! self)"
    if "fst (IsFullyAddressable (s ! self)) = Inr True"
    using that b r by simp
  have not_stored: "addressable_device_list_m (s1 ! self) \<noteq> Some self"
    if "addressable_device_list_m (s ! self) \<noteq> Some self"
    using that r assms(1) by (cases b) auto
  from again equal self_returned not_stored show ?thesis by blast
qed

lemma AddressableDeviceList_store_local:
  "AddressableDeviceList runtime_example store_local 0 =
     (Inr 0,
      [(PyDeviceList_ifrt (Some client_A) [device_local])
         \<lparr>process_indices_m := Some {0}, is_fully_addressable_m := Some True\<rparr>])"
  by (simp add: store_local_def AddressableDeviceList_def IsFullyAddressable_def
      ProcessIndices_def PyDeviceList_ifrt_def new_PyDeviceList_def client_A_def device_local_def
      runtime_example_def Let_def)

lemma AddressableDeviceList_idempotent_example:
  "AddressableDeviceList runtime_example store_remote 0
     = (Inr 1, snd (AddressableDeviceList runtime_example store_remote 0))
   \<and> AddressableDeviceList runtime_example (snd (AddressableDeviceList runtime_example store_remote 0)) 0
     = (Inr 1, snd (AddressableDeviceList runtime_example store_remote 0))
   \<and> AddressableDeviceList runtime_example store_local 0
     = (Inr 0, snd (AddressableDeviceList runtime_example store_local 0))
   \<and> AddressableDeviceList runtime_example (snd (AddressableDeviceList runtime_example store_local 0)) 0
     = (Inr 0, snd (AddressableDeviceList runtime_example store_local 0))
   \<and> addressable_device_list_m (snd (AddressableDeviceList runtime_example store_local 0) ! 0) = None"
  using AddressableDeviceList_idempotent
      [of 0 store_remote runtime_example 1
          "snd (AddressableDeviceList runtime_example store_remote 0)" runtime_example]
    AddressableDeviceList_idempotent
      [of 0 store_local runtime_example 0
          "snd (AddressableDeviceList runtime_example store_local 0)" runtime_example]
  by (simp add: AddressableDeviceList_store_remote AddressableDeviceList_store_local)
     (simp add: store_remote_def store_local_def PyDeviceList_ifrt_def new_PyDeviceList_def)

text \<open>
  Claim C4. The claim is that on every device list two calls of
  \<open>AddressableDeviceList\<close> return equal lists, and the list itself when it is fully
  addressable. On an empty list, which the claim counts as fully addressable, the first
  call returns no list under any runtime: \<open>IsFullyAddressable\<close> fails
  \<^verbatim>\<open>CHECK_EQ(process_indices_->size(), 1)\<close>, the same check as for claims C2 and C3,
  on the list of the empty tuple and on an empty runtime list alike.
\<close>

theorem C4_empty_list_call_fails_check:
  "PyDeviceList_tuple rt [] = Inr (new_PyDeviceList None (PyTuple []))
   \<and> fst (AddressableDeviceList rt [new_PyDeviceList None (PyTuple [])] 0)
       = Inl (check_failure ''process_indices_->size() == 1'')
   \<and> fst (AddressableDeviceList rt [PyDeviceList_ifrt (Some client_A) []] 0)
       = Inl (check_failure ''process_indices_->size() == 1'')"
  by (simp add: PyDeviceList_tuple_def AddressableDeviceList_def IsFullyAddressable_empty Len_def
      PyDeviceList_ifrt_def new_PyDeviceList_def)

subsection \<open>Equality and hash of lists over the same devices\<close>

lemma tuple_equal_same: "tuple_equal rt t t = Inr True"
  by (induction t) simp_all

lemma Hash_unset_device_list:
  "device_list_m l = device_list_m l' \<Longrightarrow>
   fst (Hash rt (l\<lparr>hash_m := None\<rparr>)) = fst (Hash rt (l'\<lparr>hash_m := None\<rparr>))"
  by (simp add: Hash_def Let_def split: device_list_variant.split sum.split)

lemma Hash_hashable:
  "hashable rt l \<Longrightarrow> \<exists>h. fst (Hash rt (l\<lparr>hash_m := None\<rparr>)) = Inr h"
  by (simp add: hashable_def Hash_def Let_def split: device_list_variant.splits sum.splits)

lemma Hash_valid:
  assumes "hash_m_valid rt l" and "fst (Hash rt (l\<lparr>hash_m := None\<rparr>)) = Inr h"
  shows "Hash rt l = (Inr h, l\<lparr>hash_m := Some h\<rparr>)"
proof (cases "hash_m l")
  case None
  then have "l\<lparr>hash_m := None\<rparr> = l" by simp
  with assms(2) have "fst (Hash rt l) = Inr h" by simp
  with None show ?thesis
    by (simp add: Hash_def Let_def split: device_list_variant.splits sum.splits)
next
  case (Some h')
  with assms have "h' = h" by (simp add: hash_m_valid_def)
  moreover from Some have "l\<lparr>hash_m := Some h'\<rparr> = l" by simp
  ultimately show ?thesis using Some by (simp add: Hash_def)
qed

lemma Equal_same_device_list:
  assumes a: "a < length s" and b: "b < length s"
    and same: "device_list_m (s ! a) = device_list_m (s ! b)"
    and valid_a: "hash_m_valid rt (s ! a)" and valid_b: "hash_m_valid rt (s ! b)"
    and hashable: "hashable rt (s ! a)"
  shows "fst (Equal rt s a (DeviceListObject b)) = Inr True
       \<and> fst (Hash rt (s ! a)) = fst (Hash rt (s ! b))
       \<and> (\<exists>h. fst (Hash rt (s ! a)) = Inr h)"
proof -
  from Hash_hashable [OF hashable] obtain h where
    ha: "fst (Hash rt ((s ! a)\<lparr>hash_m := None\<rparr>)) = Inr h" by blast
  with Hash_unset_device_list [OF same, of rt]
  have hb: "fst (Hash rt ((s ! b)\<lparr>hash_m := None\<rparr>)) = Inr h" by simp
  note Ha = Hash_valid [OF valid_a ha]
  note Hb = Hash_valid [OF valid_b hb]
  have hashes: "fst (Hash rt (s ! a)) = fst (Hash rt (s ! b))" "\<exists>h. fst (Hash rt (s ! a)) = Inr h"
    by (simp_all add: Ha Hb)
  have "fst (Equal rt s a (DeviceListObject b)) = Inr True"
  proof (cases "a = b")
    case True
    then show ?thesis by (simp add: Equal_def)
  next
    case False
    let ?la = "(s ! a)\<lparr>hash_m := Some h\<rparr>"
    let ?lb = "(s ! b)\<lparr>hash_m := Some h\<rparr>"
    let ?s2 = "s[a := ?la, b := ?lb]"
    from False a b have nth: "s[a := ?la] ! b = s ! b" "?s2 ! a = ?la" "?s2 ! b = ?lb"
      by simp_all
    have dl: "device_list_m ?la = device_list_m (s ! b)" "device_list_m ?lb = device_list_m (s ! b)"
      using same by simp_all
    show ?thesis
    proof (cases "device_list_m (s ! b)")
      case (IfrtDeviceList ds)
      with False Ha Hb nth dl show ?thesis
        by (simp add: Equal_def Let_def)
    next
      case (PyTuple t)
      with False Ha Hb nth dl show ?thesis
        by (simp add: Equal_def Let_def AsTuple_def tuple_equal_same)
    qed
  qed
  with hashes show ?thesis by simp
qed

text \<open>
  Claim C1, as amended. Two device lists that hold the same representation over the
  same ordered devices (the same runtime device sequence, or the same tuple of objects),
  with valid hash members and, for a tuple, hashable elements, are equal for \<open>Equal\<close>
  and have the same hash.
\<close>

theorem C1_same_representation_equal:
  assumes "a < length s" and "b < length s"
    and "device_list_m (s ! a) = device_list_m (s ! b)"
    and "hash_m_valid rt (s ! a)" and "hash_m_valid rt (s ! b)"
    and "hashable rt (s ! a)"
  shows "fst (Equal rt s a (DeviceListObject b)) = Inr True
       \<and> fst (Hash rt (s ! a)) = fst (Hash rt (s ! b))
       \<and> (\<exists>h. fst (Hash rt (s ! a)) = Inr h)"
  using assms by (rule Equal_same_device_list)

theorem C1_witness:
  "fst (Equal runtime_example
          [PyDeviceList_ifrt (Some client_A) [device_local, device_remote],
           PyDeviceList_ifrt (Some client_A) [device_local, device_remote]] 0 (DeviceListObject 1))
     = Inr True
   \<and> fst (Hash runtime_example (PyDeviceList_ifrt (Some client_A) [device_local, device_remote]))
     = Inr 21"
  using C1_same_representation_equal
    [of 0 "[PyDeviceList_ifrt (Some client_A) [device_local, device_remote],
            PyDeviceList_ifrt (Some client_A) [device_local, device_remote]]" 1 runtime_example]
  by (simp add: hash_m_valid_def hashable_def PyDeviceList_ifrt_def new_PyDeviceList_def
      Hash_def runtime_example_def device_local_def device_remote_def)

theorem C1_counterexample:
  "AsTuple (store_empty_lists ! 0) = Inr [] \<and> AsTuple (store_empty_lists ! 1) = Inr []
   \<and> fst (Hash runtime_example (store_empty_lists ! 0)) = Inr 0
   \<and> fst (Hash runtime_example (store_empty_lists ! 1)) = Inr 5740354900026072187
   \<and> fst (Equal runtime_example store_empty_lists 0 (DeviceListObject 1)) = Inr False"
  by (simp add: store_empty_lists_def AsTuple_def Hash_def Equal_def runtime_example_def
      PyDeviceList_ifrt_def new_PyDeviceList_def Let_def)

subsection \<open>Serialising and reconstructing\<close>

lemma native_devices_GetPyDevice: "native_devices (map (GetPyDevice c) ds) = ds"
  by (induction ds) (simp_all add: GetPyDevice_def)

lemma PyDeviceList_tuple_AsTuple_native:
  assumes "ds \<noteq> []" and "MakeDeviceList rt c ds = Inr ds"
  shows "PyDeviceList_tuple rt (map (GetPyDevice c) ds)
           = Inr (new_PyDeviceList (Some c) (IfrtDeviceList ds))"
proof -
  have "map (GetPyDevice c) ds \<noteq> []" using assms(1) by simp
  moreover have "\<forall>x\<in>set (map (GetPyDevice c) ds). \<exists>d. x = PyDevice c d"
    by (auto simp: GetPyDevice_def)
  ultimately have "PyDeviceList_tuple rt (map (GetPyDevice c) ds) =
           (case MakeDeviceList rt c (native_devices (map (GetPyDevice c) ds)) of
              Inl st \<Rightarrow> Inl (XlaRuntimeError st)
            | Inr dl \<Rightarrow> Inr (new_PyDeviceList (Some c) (IfrtDeviceList dl)))"
    by (rule PyDeviceList_tuple_all_native)
  with assms(2) show ?thesis by (simp add: native_devices_GetPyDevice)
qed

lemma getstate_setstate_same_device_list:
  assumes "self < length s"
    and "case device_list_m (s ! self) of
           IfrtDeviceList ds \<Rightarrow>
             ds \<noteq> [] \<and> (\<exists>c. py_client_m (s ! self) = Some c \<and> MakeDeviceList rt c ds = Inr ds)
         | PyTuple t \<Rightarrow> (\<exists>pc. PyDeviceList_tuple rt t = Inr (new_PyDeviceList pc (PyTuple t)))"
  shows "\<exists>pc. getstate_setstate rt s self
           = (Inr (length s), s @ [new_PyDeviceList pc (device_list_m (s ! self))])"
proof (cases "device_list_m (s ! self)")
  case (IfrtDeviceList ds)
  with assms(2) obtain c where ds: "ds \<noteq> []" and c: "py_client_m (s ! self) = Some c"
    and mk: "MakeDeviceList rt c ds = Inr ds" by auto
  from IfrtDeviceList ds c have "Dump (s ! self) = Inr (map (GetPyDevice c) ds)"
    by (simp add: Dump_def AsTuple_def)
  with PyDeviceList_tuple_AsTuple_native [OF ds mk] IfrtDeviceList show ?thesis
    by (auto simp: getstate_setstate_def)
next
  case (PyTuple t)
  with assms(2) obtain pc where "PyDeviceList_tuple rt t = Inr (new_PyDeviceList pc (PyTuple t))"
    by auto
  moreover from PyTuple have "Dump (s ! self) = Inr t" by (simp add: Dump_def AsTuple_def)
  ultimately show ?thesis using PyTuple by (auto simp: getstate_setstate_def)
qed

text \<open>
  Claim C5, as amended. Take a device list with a valid hash member that is either a
  non-empty runtime list with its owning client, whose \<open>MakeDeviceList\<close> accepts the
  list's devices, or a tuple that the constructor keeps as a tuple and whose elements
  are hashable. Serialising it and constructing a list from the state puts a new list
  into the store that is equal to the original, in both directions of \<open>Equal\<close>.
\<close>

theorem C5_round_trip_equal:
  assumes "self < length s"
    and "hash_m_valid rt (s ! self)" and "hashable rt (s ! self)"
    and "case device_list_m (s ! self) of
           IfrtDeviceList ds \<Rightarrow>
             ds \<noteq> [] \<and> (\<exists>c. py_client_m (s ! self) = Some c \<and> MakeDeviceList rt c ds = Inr ds)
         | PyTuple t \<Rightarrow> (\<exists>pc. PyDeviceList_tuple rt t = Inr (new_PyDeviceList pc (PyTuple t)))"
  shows "\<exists>s'. getstate_setstate rt s self = (Inr (length s), s')
            \<and> fst (Equal rt s' (length s) (DeviceListObject self)) = Inr True
            \<and> fst (Equal rt s' self (DeviceListObject (length s))) = Inr True"
proof -
  from getstate_setstate_same_device_list [OF assms(1) assms(4)] obtain pc where
    rt: "getstate_setstate rt s self
           = (Inr (length s), s @ [new_PyDeviceList pc (device_list_m (s ! self))])"
    by blast
  let ?new = "new_PyDeviceList pc (device_list_m (s ! self))"
  let ?s' = "s @ [?new]"
  have self: "self < length ?s'" and new: "length s < length ?s'" using assms(1) by simp_all
  have nth: "?s' ! self = s ! self" "?s' ! length s = ?new"
    using assms(1) by (simp_all add: nth_append)
  have dl: "device_list_m ?new = device_list_m (s ! self)" by (simp add: new_PyDeviceList_def)
  have valid_new: "hash_m_valid rt ?new" by (simp add: hash_m_valid_def new_PyDeviceList_def)
  have hashable_new: "hashable rt ?new"
    using assms(3) by (simp add: hashable_def new_PyDeviceList_def)
  have "fst (Equal rt ?s' (length s) (DeviceListObject self)) = Inr True"
    using Equal_same_device_list [OF new self, of rt] nth dl valid_new hashable_new assms(2)
    by simp
  moreover have "fst (Equal rt ?s' self (DeviceListObject (length s))) = Inr True"
    using Equal_same_device_list [OF self new, of rt] nth dl valid_new assms(2) assms(3)
    by simp
  ultimately show ?thesis using rt by simp
qed

theorem C5_witness:
  "getstate_setstate runtime_example store_local 0
     = (Inr 1, [PyDeviceList_ifrt (Some client_A) [device_local],
                PyDeviceList_ifrt (Some client_A) [device_local]])
   \<and> fst (Equal runtime_example (snd (getstate_setstate runtime_example store_local 0)) 1
            (DeviceListObject 0)) = Inr True
   \<and> getstate_setstate runtime_example store_ducks 0
     = (Inr 1, [store_ducks ! 0, store_ducks ! 0])
   \<and> fst (Equal runtime_example (snd (getstate_setstate runtime_example store_ducks 0)) 1
            (DeviceListObject 0)) = Inr True"
  using C5_round_trip_equal [of 0 store_local runtime_example]
    C5_round_trip_equal [of 0 store_ducks runtime_example]
  by (simp add: store_local_def store_ducks_def hash_m_valid_def hashable_def
      PyDeviceList_ifrt_def new_PyDeviceList_def runtime_example_def getstate_setstate_def
      Dump_def AsTuple_def GetPyDevice_def PyDeviceList_tuple_def)

theorem C5_counterexample:
  "fst (AddressableDeviceList runtime_example store_remote 0) = Inr 1
   \<and> device_list_m (snd (AddressableDeviceList runtime_example store_remote 0) ! 1)
       = IfrtDeviceList []
   \<and> Dump (snd (AddressableDeviceList runtime_example store_remote 0) ! 1) = Inr []
   \<and> fst (getstate_setstate runtime_example
            (snd (AddressableDeviceList runtime_example store_remote 0)) 1) = Inr 2
   \<and> device_list_m (snd (getstate_setstate runtime_example
            (snd (AddressableDeviceList runtime_example store_remote 0)) 1) ! 2) = PyTuple []
   \<and> fst (Equal runtime_example
            (snd (getstate_setstate runtime_example
                    (snd (AddressableDeviceList runtime_example store_remote 0)) 1))
            2 (DeviceListObject 1)) = Inr False"
  by (simp add: AddressableDeviceList_store_remote)
     (simp add: getstate_setstate_def Dump_def AsTuple_def PyDeviceList_tuple_def
        PyDeviceList_ifrt_def new_PyDeviceList_def Equal_def Hash_def runtime_example_def Let_def)

end
